theory Spec2Isabelle
  imports Complex_Main
begin

section \<open>JavaScript values\<close>

text \<open>
  The fields of a request body are JSON values. Numbers of a body are modelled as
  integers (of magnitude below \<open>10^21\<close>, where JavaScript's \<open>String(n)\<close> is the plain
  decimal rendering); strings are byte strings and only ASCII letters change case.
  Where the source applies \<open>Number(...)\<close> to a field, the model takes the resulting
  number as its input: a \<open>jsnumber\<close> is NaN, an infinity or a finite value, the finite
  doubles being read as the rationals they denote.
\<close>

datatype jsval = JUndefined | JNull | JBool bool | JInt int | JStr string

datatype jsnumber = NaN | PosInfinity | NegInfinity | Fin rat

datatype js_error = JsError (message: string)

fun js_truthy :: "jsval \<Rightarrow> bool" where
  "js_truthy JUndefined = False"
| "js_truthy JNull = False"
| "js_truthy (JBool b) = b"
| "js_truthy (JInt n) = (n \<noteq> 0)"
| "js_truthy (JStr s) = (s \<noteq> [])"

fun isFinite :: "jsnumber \<Rightarrow> bool" where
  "isFinite (Fin q) = True"
| "isFinite _ = False"

definition digit_char :: "nat \<Rightarrow> char" where
  "digit_char d = ''0123456789'' ! d"

fun digits_of :: "nat \<Rightarrow> string" where
  "digits_of n =
     (if n < 10 then [digit_char n] else digits_of (n div 10) @ [digit_char (n mod 10)])"

declare digits_of.simps [simp del]

definition show_int :: "int \<Rightarrow> string" where
  \<comment> \<open>\<open>String(n)\<close> for an integer \<open>n\<close>\<close>
  "show_int i = (if i < 0 then CHR ''-'' # digits_of (nat (- i)) else digits_of (nat i))"

fun js_to_string :: "jsval \<Rightarrow> string" where
  \<comment> \<open>\<open>String(v)\<close>\<close>
  "js_to_string JUndefined = ''undefined''"
| "js_to_string JNull = ''null''"
| "js_to_string (JBool b) = (if b then ''true'' else ''false'')"
| "js_to_string (JInt n) = show_int n"
| "js_to_string (JStr s) = s"

definition to_upper :: "char \<Rightarrow> char" where
  "to_upper c =
     (case map_of (zip ''abcdefghijklmnopqrstuvwxyz'' ''ABCDEFGHIJKLMNOPQRSTUVWXYZ'') c of
        Some u \<Rightarrow> u
      | None \<Rightarrow> c)"

definition toUpperCase :: "string \<Rightarrow> string" where
  "toUpperCase s = map to_upper s"

subsection \<open>\<open>Number.parseInt(s, 10)\<close>\<close>

definition is_digit :: "char \<Rightarrow> bool" where
  "is_digit c \<longleftrightarrow> c \<in> set ''0123456789''"

definition digit_val :: "char \<Rightarrow> nat" where
  "digit_val c = of_char c - 48"

definition is_js_space :: "char \<Rightarrow> bool" where
  \<comment> \<open>TAB, LF, VT, FF, CR and SP\<close>
  "is_js_space c \<longleftrightarrow> (of_char c :: nat) \<in> {9, 10, 11, 12, 13, 32}"

definition digits_value :: "string \<Rightarrow> nat" where
  "digits_value z = foldl (\<lambda>a c. 10 * a + digit_val c) 0 z"

definition parseInt10 :: "string \<Rightarrow> int option" where
  \<comment> \<open>leading white space is skipped, one sign is read, then the longest run of decimal
      digits; \<open>None\<close> is NaN (no digit there)\<close>
  "parseInt10 s =
     (let S = dropWhile is_js_space s;
          neg = (S \<noteq> [] \<and> hd S = CHR ''-'');
          S' = (if S \<noteq> [] \<and> (hd S = CHR ''+'' \<or> hd S = CHR ''-'') then tl S else S);
          Z = takeWhile is_digit S'
      in if Z = [] then None
         else Some ((if neg then - 1 else 1) * int (digits_value Z)))"

section \<open>The persistent store\<close>

text \<open>
  The three tables of the schema. \<open>paid\<close> is the INTEGER column (0 or 1), read by the
  handlers as a truth value; \<open>session_id\<close> is nullable; the table \<open>settings\<close> only ever
  holds the row with id 1, so it is that row or nothing.
\<close>

record candidate =
  cand_id :: int
  cand_name :: string
  tally :: int

record transaction =
  trx_id :: int
  session_id :: "string option"
  candidate_id :: int
  votes :: int
  currency :: string
  amount_total :: int
  paid :: int
  created_at :: string

record settings_row =
  question :: "string option"
  glow :: "string option"

record db =
  candidates :: "candidate list"
  transactions :: "transaction list"
  settings :: "settings_row option"

definition empty_db :: db where
  "empty_db = \<lparr>candidates = [], transactions = [], settings = None\<rparr>"

section \<open>The environment: configuration, payment client, storage faults\<close>

record stripe_session =
  sess_id :: string
  sess_url :: jsval
  payment_status :: string

record stripe_event =
  ev_type :: string
  ev_object_id :: "string option"

record checkout_params =
  cp_mode :: string
  cp_currency :: string
  cp_product_name :: string
  cp_unit_amount :: int
  cp_quantity :: int
  cp_success_url :: jsval
  cp_cancel_url :: jsval
  cp_allow_promotion_codes :: bool
  cp_metadata_candidate_id :: string
  cp_metadata_votes :: string

text \<open>
  The payment provider's SDK is a black box: each of its three calls either throws or
  returns. \<open>constructEvent body sig secret\<close> verifies the signature of the raw body and
  throws when it does not verify.
\<close>

record stripe_client =
  sessions_create :: "checkout_params \<Rightarrow> js_error + stripe_session"
  sessions_retrieve :: "string \<Rightarrow> js_error + stripe_session"
  constructEvent :: "string \<Rightarrow> string option \<Rightarrow> string \<Rightarrow> js_error + stripe_event"

datatype statement = InsertTransaction | MarkPaid | IncTally | Commit | UpdateSettings

text \<open>
  \<open>stripe\<close> is \<open>None\<close> when no secret key is configured (or the client failed to
  initialise). \<open>sqlite_throws\<close> says which writing statement the storage engine fails
  with an exception in this request, if any.
\<close>

record env =
  FRONTEND_URL :: string
  INSTAGRAM_URL :: string
  ADMIN_TOKEN :: string
  VOTE_PRICE_MINOR :: int
  STRIPE_WEBHOOK_SECRET :: "string option"
  production :: bool
  stripe :: "stripe_client option"
  sqlite_throws :: "statement \<Rightarrow> js_error option"
  CURRENT_TIMESTAMP :: string

section \<open>Responses\<close>

datatype body =
    ErrorJson string
  | OkJson
  | SettingsJson string string string
  | TallyJson "candidate list"
  | CheckoutJson string jsval
  | AlreadyCounted
  | Counted
  | NotPaid
  | Received "string option"
  | TextBody string
  | ErrorPage js_error  \<comment> \<open>the framework's page for an exception no handler caught\<close>

type_synonym response = "nat \<times> body"

section \<open>Statements on the store\<close>

definition lookup_candidate :: "db \<Rightarrow> jsnumber \<Rightarrow> candidate option" where
  \<comment> \<open>\<open>SELECT * FROM candidates WHERE id=?\<close>\<close>
  "lookup_candidate d n =
     (case n of
        Fin q \<Rightarrow> find (\<lambda>c. of_int (cand_id c) = q) (candidates d)
      | _ \<Rightarrow> None)"

definition lookup_session :: "db \<Rightarrow> string option \<Rightarrow> transaction option" where
  \<comment> \<open>\<open>SELECT * FROM transactions WHERE session_id=?\<close>; NULL equals nothing\<close>
  "lookup_session d k =
     (case k of
        None \<Rightarrow> None
      | Some sid \<Rightarrow> find (\<lambda>t. session_id t = Some sid) (transactions d))"

definition next_id :: "int list \<Rightarrow> int" where
  \<comment> \<open>AUTOINCREMENT: one more than the largest id (rows are never deleted)\<close>
  "next_id ids = fold max ids 0 + 1"

definition insert_transaction ::
  "env \<Rightarrow> string \<Rightarrow> int \<Rightarrow> int \<Rightarrow> string \<Rightarrow> int \<Rightarrow> db \<Rightarrow> js_error + db" where
  "insert_transaction e sid cid v cur amount d =
     (case sqlite_throws e InsertTransaction of
        Some err \<Rightarrow> Inl err
      | None \<Rightarrow>
          if lookup_session d (Some sid) \<noteq> None
          then Inl (JsError ''UNIQUE constraint failed: transactions.session_id'')
          else if find (\<lambda>c. cand_id c = cid) (candidates d) = None
          then Inl (JsError ''FOREIGN KEY constraint failed'')
          else Inr (d\<lparr>transactions := transactions d @
                 [\<lparr>trx_id = next_id (map trx_id (transactions d)), session_id = Some sid,
                   candidate_id = cid, votes = v, currency = cur, amount_total = amount,
                   paid = 0, created_at = CURRENT_TIMESTAMP e\<rparr>]\<rparr>))"

definition mark_run :: "env \<Rightarrow> string option \<Rightarrow> db \<Rightarrow> js_error + db" where
  \<comment> \<open>\<open>UPDATE transactions SET paid=1 WHERE session_id=?\<close>\<close>
  "mark_run e k d =
     (case sqlite_throws e MarkPaid of
        Some err \<Rightarrow> Inl err
      | None \<Rightarrow>
          Inr (d\<lparr>transactions :=
                 map (\<lambda>t. if k \<noteq> None \<and> session_id t = k then t\<lparr>paid := 1\<rparr> else t)
                   (transactions d)\<rparr>))"

definition inc_run :: "env \<Rightarrow> int \<Rightarrow> int \<Rightarrow> db \<Rightarrow> js_error + db" where
  \<comment> \<open>\<open>UPDATE candidates SET tally=tally+? WHERE id=?\<close>\<close>
  "inc_run e v cid d =
     (case sqlite_throws e IncTally of
        Some err \<Rightarrow> Inl err
      | None \<Rightarrow>
          Inr (d\<lparr>candidates :=
                 map (\<lambda>c. if cand_id c = cid then c\<lparr>tally := tally c + v\<rparr> else c)
                   (candidates d)\<rparr>))"

definition db_transaction :: "env \<Rightarrow> (db \<Rightarrow> js_error + db) \<Rightarrow> db \<Rightarrow> js_error + db" where
  \<comment> \<open>\<open>db.transaction(fn)()\<close>: an exception of the body or of the commit rolls back and is
      thrown on; only a committed body changes the store\<close>
  "db_transaction e f d =
     (case f d of
        Inl err \<Rightarrow> Inl err
      | Inr d' \<Rightarrow> (case sqlite_throws e Commit of Some err \<Rightarrow> Inl err | None \<Rightarrow> Inr d'))"

definition mark_and_inc :: "env \<Rightarrow> string option \<Rightarrow> transaction \<Rightarrow> db \<Rightarrow> js_error + db" where
  \<comment> \<open>the unit of work of both confirmers: \<open>mark.run(id); inc.run(trx.votes, trx.candidate_id)\<close>\<close>
  "mark_and_inc e k trx d =
     db_transaction e
       (\<lambda>d0. case mark_run e k d0 of
                Inl err \<Rightarrow> Inl err
              | Inr d1 \<Rightarrow> inc_run e (votes trx) (candidate_id trx) d1) d"

section \<open>Start-up: schema and seed\<close>

fun split_commas :: "string \<Rightarrow> string list" where
  "split_commas [] = [[]]"
| "split_commas (c # cs) =
     (if c = CHR '','' then [] # split_commas cs
      else (case split_commas cs of p # ps \<Rightarrow> (c # p) # ps | [] \<Rightarrow> [[c]]))"

definition trim :: "string \<Rightarrow> string" where
  "trim s = rev (dropWhile is_js_space (rev (dropWhile is_js_space s)))"

definition seed_names :: "string option \<Rightarrow> string list" where
  \<comment> \<open>\<open>(process.env.CANDIDATES || 'Yes,No').split(',').map(s=>s.trim()).filter(Boolean)\<close>\<close>
  "seed_names v =
     filter (\<lambda>s. s \<noteq> [])
       (map trim (split_commas (case v of None \<Rightarrow> ''Yes,No'' | Some s \<Rightarrow> if s = [] then ''Yes,No'' else s)))"

fun insert_candidates :: "string list \<Rightarrow> candidate list \<Rightarrow> js_error + candidate list" where
  \<comment> \<open>\<open>INSERT INTO candidates (name) VALUES (?)\<close> for each seed; the tally takes its
      default 0, a repeated name breaks the UNIQUE constraint\<close>
  "insert_candidates [] cs = Inr cs"
| "insert_candidates (n # ns) cs =
     (if find (\<lambda>c. cand_name c = n) cs \<noteq> None
      then Inl (JsError ''UNIQUE constraint failed: candidates.name'')
      else insert_candidates ns
             (cs @ [\<lparr>cand_id = next_id (map cand_id cs), cand_name = n, tally = 0\<rparr>]))"

definition startup :: "string option \<Rightarrow> db \<Rightarrow> js_error + db" where
  \<comment> \<open>the module's top level, run on the store found on disk; \<open>Inl\<close> is a crash at start\<close>
  "startup CANDIDATES d =
     (let d1 = (case settings d of
                  None \<Rightarrow> d\<lparr>settings := Some \<lparr>question = Some ''Is this week's answer YES?'',
                                               glow = Some ''#00ffff''\<rparr>\<rparr>
                | Some s \<Rightarrow> d)
      in if candidates d1 = []
         then (case insert_candidates (seed_names CANDIDATES) [] of
                 Inl err \<Rightarrow> Inl err
               | Inr cs \<Rightarrow> Inr (d1\<lparr>candidates := cs\<rparr>))
         else Inr d1)"

section \<open>The HTTP handlers\<close>

text \<open>
  A handler takes the environment of the request, the store before it and the request's
  data, and returns the reply with the store after it: requests are served one at a time.
  (The pull path waits for the provider between reading the transaction and its unit of
  work; what another request does to the store during that wait is outside this model.)
\<close>

definition priceMinor :: "env \<Rightarrow> int \<Rightarrow> int" where
  \<comment> \<open>\<open>base * Math.max(1, Number(votes||1))\<close>, \<open>votes\<close> an integer here\<close>
  "priceMinor e v = VOTE_PRICE_MINOR e * max 1 (if v = 0 then 1 else v)"

subsection \<open>\<open>GET /api/settings\<close>, \<open>GET /api/tally\<close>\<close>

definition get_settings :: "env \<Rightarrow> db \<Rightarrow> response \<times> db" where
  "get_settings e d =
     (let q = (case settings d of
                 None \<Rightarrow> None
               | Some s \<Rightarrow> question s);
          g = (case settings d of
                 None \<Rightarrow> None
               | Some s \<Rightarrow> glow s)
      in ((200, SettingsJson (case q of None \<Rightarrow> [] | Some x \<Rightarrow> x)
                   (case g of None \<Rightarrow> ''#00ffff'' | Some x \<Rightarrow> if x = [] then ''#00ffff'' else x)
                   (INSTAGRAM_URL e)), d))"

definition get_tally :: "db \<Rightarrow> response \<times> db" where
  \<comment> \<open>\<open>SELECT id,name,tally FROM candidates ORDER BY id ASC\<close>\<close>
  "get_tally d = ((200, TallyJson (sort_key cand_id (candidates d))), d)"

subsection \<open>\<open>POST /api/admin/settings\<close>\<close>

record admin_body =
  ab_question :: jsval
  ab_glow :: jsval

fun bind_text :: "jsval \<Rightarrow> js_error + string option" where
  \<comment> \<open>binding a parameter of the statement, as the storage driver does: \<open>undefined\<close> and
      \<open>null\<close> bind NULL; a number is bound as a REAL, which the TEXT column stores as its
      text (\<open>5.0\<close> for 5, for magnitudes below \<open>10^15\<close>); a boolean cannot be bound\<close>
  "bind_text JUndefined = Inr None"
| "bind_text JNull = Inr None"
| "bind_text (JStr s) = Inr (Some s)"
| "bind_text (JInt n) = Inr (Some (show_int n @ ''.0''))"
| "bind_text (JBool b) =
     Inl (JsError ''SQLite3 can only bind numbers, strings, bigints, buffers, and null'')"

definition coalesce :: "'a option \<Rightarrow> 'a option \<Rightarrow> 'a option" where
  "coalesce a b = (case a of None \<Rightarrow> b | Some x \<Rightarrow> Some x)"

definition update_settings :: "env \<Rightarrow> jsval \<Rightarrow> jsval \<Rightarrow> db \<Rightarrow> js_error + db" where
  \<comment> \<open>\<open>UPDATE settings SET question=COALESCE(?,question), glow=COALESCE(?,glow) WHERE id=1\<close>\<close>
  "update_settings e q g d =
     (case bind_text q of
        Inl err \<Rightarrow> Inl err
      | Inr q' \<Rightarrow>
         (case bind_text g of
            Inl err \<Rightarrow> Inl err
          | Inr g' \<Rightarrow>
             (case sqlite_throws e UpdateSettings of
                Some err \<Rightarrow> Inl err
              | None \<Rightarrow>
                 (case settings d of
                    None \<Rightarrow> Inr d
                  | Some s \<Rightarrow>
                      Inr (d\<lparr>settings := Some (s\<lparr>question := coalesce q' (question s),
                                                 glow := coalesce g' (glow s)\<rparr>)\<rparr>)))))"

definition authorized :: "env \<Rightarrow> string option \<Rightarrow> bool" where
  \<comment> \<open>the negation of \<open>!ADMIN_TOKEN || auth !== `Bearer ${ADMIN_TOKEN}`\<close>, with
      \<open>auth = req.headers.authorization || ''\<close>\<close>
  "authorized e hdr \<longleftrightarrow>
     ADMIN_TOKEN e \<noteq> [] \<and>
     (case hdr of None \<Rightarrow> [] | Some a \<Rightarrow> a) = ''Bearer '' @ ADMIN_TOKEN e"

definition admin_settings :: "env \<Rightarrow> db \<Rightarrow> string option \<Rightarrow> admin_body \<Rightarrow> response \<times> db" where
  \<comment> \<open>the handler has no \<open>try\<close>: an exception of the statement reaches the framework's
      error handler, which answers 500\<close>
  "admin_settings e d hdr b =
     (if \<not> authorized e hdr then ((401, ErrorJson ''Unauthorized''), d)
      else case update_settings e (ab_question b) (ab_glow b) d of
             Inl err \<Rightarrow> ((500, ErrorPage err), d)
           | Inr d' \<Rightarrow> ((200, OkJson), d'))"

subsection \<open>\<open>POST /api/create-checkout-session\<close>\<close>

record checkout_body =
  req_candidateId :: jsnumber  \<comment> \<open>\<open>Number(req.body?.candidateId)\<close>\<close>
  req_votes :: jsval
  req_currency :: jsval
  req_successUrl :: jsval
  req_cancelUrl :: jsval

definition checkout_votes :: "jsval \<Rightarrow> int" where
  \<comment> \<open>\<open>votesRaw = Number.parseInt(req.body?.votes, 10)\<close>;
      \<open>votes = Number.isFinite(votesRaw) && votesRaw > 0 ? votesRaw : 1\<close>\<close>
  "checkout_votes v =
     (case parseInt10 (js_to_string v) of
        None \<Rightarrow> 1
      | Some n \<Rightarrow> if n > 0 then n else 1)"

definition checkout_currency :: "jsval \<Rightarrow> string" where
  \<comment> \<open>\<open>String(req.body?.currency || 'USD').toUpperCase()\<close>\<close>
  "checkout_currency v = toUpperCase (js_to_string (if js_truthy v then v else JStr ''USD''))"

definition or_default :: "jsval \<Rightarrow> string \<Rightarrow> jsval" where
  "or_default v dflt = (if js_truthy v then v else JStr dflt)"

definition product_name :: "candidate \<Rightarrow> int \<Rightarrow> string" where
  \<comment> \<open>\<open>`${cand.name} \<dots> ${votes} vote${votes>1?'s':''}`\<close>, the dash in UTF-8\<close>
  "product_name cand v =
     cand_name cand @ '' '' @ [CHR 0xE2, CHR 0x80, CHR 0x94] @ '' '' @ show_int v @ '' vote'' @
       (if v > 1 then ''s'' else [])"

definition checkout_session_params :: "env \<Rightarrow> candidate \<Rightarrow> checkout_body \<Rightarrow> checkout_params" where
  "checkout_session_params e cand b =
     \<lparr>cp_mode = ''payment'',
      cp_currency = checkout_currency (req_currency b),
      cp_product_name = product_name cand (checkout_votes (req_votes b)),
      cp_unit_amount = priceMinor e (checkout_votes (req_votes b)),
      cp_quantity = 1,
      cp_success_url = or_default (req_successUrl b)
         (FRONTEND_URL e @ ''/?status=success&session_id={CHECKOUT_SESSION_ID}''),
      cp_cancel_url = or_default (req_cancelUrl b) (FRONTEND_URL e @ ''/?status=cancelled''),
      cp_allow_promotion_codes = False,
      cp_metadata_candidate_id = show_int (cand_id cand),
      cp_metadata_votes = show_int (checkout_votes (req_votes b))\<rparr>"

definition checkout_failed :: "env \<Rightarrow> js_error \<Rightarrow> response" where
  "checkout_failed e err =
     (500, ErrorJson (if production e then ''Failed to create checkout session''
                      else ''Failed to create checkout session: '' @ message err))"

definition create_checkout_session :: "env \<Rightarrow> db \<Rightarrow> checkout_body \<Rightarrow> response \<times> db" where
  "create_checkout_session e d b =
     (case stripe e of
        None \<Rightarrow> ((400, ErrorJson ''Stripe is not configured on the server.''), d)
      | Some client \<Rightarrow>
         if \<not> isFinite (req_candidateId b) then ((400, ErrorJson ''Invalid candidateId''), d)
         else
          (case lookup_candidate d (req_candidateId b) of
             None \<Rightarrow> ((404, ErrorJson ''Candidate not found''), d)
           | Some cand \<Rightarrow>
              (case sessions_create client (checkout_session_params e cand b) of
                 Inl err \<Rightarrow> (checkout_failed e err, d)
               | Inr session \<Rightarrow>
                  (case insert_transaction e (sess_id session) (cand_id cand)
                          (checkout_votes (req_votes b)) (checkout_currency (req_currency b))
                          (priceMinor e (checkout_votes (req_votes b))) d of
                     Inl err \<Rightarrow> (checkout_failed e err, d)
                   | Inr d' \<Rightarrow> ((200, CheckoutJson (sess_id session) (sess_url session)), d')))))"

subsection \<open>\<open>GET /api/verify-session\<close> (the pull path)\<close>

definition verify_session :: "env \<Rightarrow> db \<Rightarrow> string option \<Rightarrow> response \<times> db" where
  "verify_session e d q =
     (case q of
        None \<Rightarrow> ((400, ErrorJson ''Missing session_id''), d)
      | Some sid \<Rightarrow>
         if sid = [] then ((400, ErrorJson ''Missing session_id''), d)
         else
          (case lookup_session d (Some sid) of
             None \<Rightarrow> ((404, ErrorJson ''Unknown session''), d)
           | Some trx \<Rightarrow>
              if paid trx \<noteq> 0 then ((200, AlreadyCounted), d)
              else
               (case stripe e of
                  None \<Rightarrow> ((400, ErrorJson ''Stripe not configured''), d)
                | Some client \<Rightarrow>
                   (case sessions_retrieve client sid of
                      Inl err \<Rightarrow> ((500, ErrorJson ''Verification failed''), d)
                    | Inr session \<Rightarrow>
                       if payment_status session = ''paid''
                       then (case mark_and_inc e (Some sid) trx d of
                               Inl err \<Rightarrow> ((500, ErrorJson ''Verification failed''), d)
                             | Inr d' \<Rightarrow> ((200, Counted), d'))
                       else ((200, NotPaid), d)))))"

subsection \<open>\<open>POST /api/stripe/webhook\<close> (the push path)\<close>

definition webhook_error :: "js_error \<Rightarrow> response" where
  "webhook_error err = (400, TextBody (''Webhook Error: '' @ message err))"

definition stripe_webhook :: "env \<Rightarrow> db \<Rightarrow> string \<Rightarrow> string option \<Rightarrow> response \<times> db" where
  \<comment> \<open>\<open>raw\<close> is the unparsed request body, \<open>sig\<close> the \<open>stripe-signature\<close> header\<close>
  "stripe_webhook e d raw sig =
     (case (STRIPE_WEBHOOK_SECRET e, stripe e) of
        (Some secret, Some client) \<Rightarrow>
          if secret = [] then ((200, Received (Some ''webhook not configured'')), d)
          else
           (case constructEvent client raw sig secret of
              Inl err \<Rightarrow> (webhook_error err, d)
            | Inr event \<Rightarrow>
               if ev_type event = ''checkout.session.completed''
               then (case lookup_session d (ev_object_id event) of
                       None \<Rightarrow> ((200, Received None), d)
                     | Some trx \<Rightarrow>
                        if paid trx = 0
                        then (case mark_and_inc e (ev_object_id event) trx d of
                                Inl err \<Rightarrow> (webhook_error err, d)
                              | Inr d' \<Rightarrow> ((200, Received None), d'))
                        else ((200, Received None), d))
               else ((200, Received None), d))
      | _ \<Rightarrow> ((200, Received (Some ''webhook not configured'')), d))"

subsection \<open>The server as a whole\<close>

datatype request =
    GetSettings
  | GetTally
  | PostAdminSettings "string option" admin_body
  | PostCreateCheckoutSession checkout_body
  | GetVerifySession "string option"
  | PostStripeWebhook string "string option"

fun handle :: "env \<Rightarrow> db \<Rightarrow> request \<Rightarrow> response \<times> db" where
  "handle e d GetSettings = get_settings e d"
| "handle e d GetTally = get_tally d"
| "handle e d (PostAdminSettings hdr b) = admin_settings e d hdr b"
| "handle e d (PostCreateCheckoutSession b) = create_checkout_session e d b"
| "handle e d (GetVerifySession q) = verify_session e d q"
| "handle e d (PostStripeWebhook raw sig) = stripe_webhook e d raw sig"

text \<open>
  The stores the server can be in: what start-up makes of an empty store, and what a
  request or a restart makes of such a store. The environment may differ from one request
  to the next (the provider's answers and the storage faults do).
\<close>

inductive reachable :: "db \<Rightarrow> bool" where
  first_start: "startup cs empty_db = Inr d \<Longrightarrow> reachable d"
| restart: "reachable d \<Longrightarrow> startup cs d = Inr d' \<Longrightarrow> reachable d'"
| request: "reachable d \<Longrightarrow> handle e d r = (resp, d') \<Longrightarrow> reachable d'"

section \<open>The client's checkout helpers\<close>

definition normalizeVotes :: "jsnumber \<Rightarrow> int" where
  \<comment> \<open>the argument is \<open>n = Number(v)\<close>\<close>
  "normalizeVotes n =
     (case n of
        Fin q \<Rightarrow> if q < 1 then 1 else \<lfloor>q\<rfloor>
      | _ \<Rightarrow> 1)"

definition isValidCurrency :: "jsval \<Rightarrow> string list \<Rightarrow> bool" where
  \<comment> \<open>\<open>set.includes(String(c || '').toUpperCase())\<close>\<close>
  "isValidCurrency c cs \<longleftrightarrow>
     toUpperCase (js_to_string (if js_truthy c then c else JStr [])) \<in> set cs"

definition currencies :: "string list" where
  "currencies =
     [''USD'', ''CAD'', ''EUR'', ''GBP'', ''AUD'', ''NZD'', ''JPY'', ''AED'', ''SAR'', ''INR'',
      ''NGN'', ''ZAR'', ''BRL'', ''MXN'', ''CHF'', ''SEK'', ''NOK'', ''DKK'', ''PLN'', ''RON'',
      ''TRY'', ''ILS'', ''HKD'', ''SGD'', ''CZK'']"

record ui_state =
  choiceId :: "int option"
  ui_votes :: jsnumber
  ui_currency :: jsval
  ui_message :: string
  creating :: bool

record fetch_body =
  fb_candidateId :: int
  fb_votes :: int
  fb_currency :: jsval
  fb_successUrl :: string
  fb_cancelUrl :: string

definition createCheckout :: "string \<Rightarrow> ui_state \<Rightarrow> ui_state \<times> fetch_body option" where
  \<comment> \<open>the client's \<open>createCheckout\<close> up to its \<open>fetch\<close>: the new state and the body posted
      to \<open>/api/create-checkout-session\<close>, if one is\<close>
  "createCheckout origin st =
     (case choiceId st of
        None \<Rightarrow> (st\<lparr>ui_message := ''Pick YES or NO.''\<rparr>, None)
      | Some c \<Rightarrow>
         if c = 0 then (st\<lparr>ui_message := ''Pick YES or NO.''\<rparr>, None)
         else if \<not> isValidCurrency (ui_currency st) currencies
         then (st\<lparr>ui_message := ''Unsupported currency.''\<rparr>, None)
         else (st\<lparr>ui_message := [], ui_votes := Fin (of_int (normalizeVotes (ui_votes st))),
                  creating := True\<rparr>,
               Some \<lparr>fb_candidateId = c, fb_votes = normalizeVotes (ui_votes st),
                     fb_currency = ui_currency st,
                     fb_successUrl = origin @ ''/?status=success&session_id={CHECKOUT_SESSION_ID}'',
                     fb_cancelUrl = origin @ ''/?status=cancelled''\<rparr>))"

section \<open>Notions the properties are stated with\<close>

definition tally_of :: "db \<Rightarrow> int \<Rightarrow> int option" where
  \<comment> \<open>the tally of the candidate with this id, if there is one\<close>
  "tally_of d cid = map_option tally (find (\<lambda>c. cand_id c = cid) (candidates d))"

definition trx_ok :: "candidate list \<Rightarrow> transaction \<Rightarrow> bool" where
  \<comment> \<open>a transaction has a session id, a vote count of at least 1, a paid flag that is 0 or
      1, and a candidate\<close>
  "trx_ok cs t \<longleftrightarrow>
     session_id t \<noteq> None \<and> 1 \<le> votes t \<and> (paid t = 0 \<or> paid t = 1) \<and>
     find (\<lambda>c. cand_id c = candidate_id t) cs \<noteq> None"

definition store_ok :: "db \<Rightarrow> bool" where
  \<comment> \<open>what the schema and the handlers keep true of the store: no tally is negative and
      every transaction is as above\<close>
  "store_ok d \<longleftrightarrow>
     list_all (\<lambda>c. 0 \<le> tally c) (candidates d) \<and>
     list_all (trx_ok (candidates d)) (transactions d)"

definition tallies_grow :: "db \<Rightarrow> db \<Rightarrow> bool" where
  \<comment> \<open>every candidate is still there, under its name, with a tally that is not smaller\<close>
  "tallies_grow d d' \<longleftrightarrow>
     list_all (\<lambda>c. list_ex (\<lambda>c'. cand_id c' = cand_id c \<and> cand_name c' = cand_name c \<and>
                                    tally c \<le> tally c') (candidates d'))
       (candidates d)"

fun is_confirmer :: "request \<Rightarrow> bool" where
  "is_confirmer (GetVerifySession q) = True"
| "is_confirmer (PostStripeWebhook raw sig) = True"
| "is_confirmer _ = False"

text \<open>
  A confirmation call for a session: the pull path with that session id, or the push path
  with a request that the provider's check accepts as the event
  \<open>checkout.session.completed\<close> of that session.
\<close>

datatype confirm_call = Pull env | Push env string "string option"

definition delivers :: "env \<Rightarrow> string \<Rightarrow> string option \<Rightarrow> string \<Rightarrow> bool" where
  "delivers e raw sig sid \<longleftrightarrow>
     (case (STRIPE_WEBHOOK_SECRET e, stripe e) of
        (Some secret, Some client) \<Rightarrow>
           secret \<noteq> [] \<and>
           (case constructEvent client raw sig secret of
              Inl err \<Rightarrow> False
            | Inr event \<Rightarrow>
                ev_type event = ''checkout.session.completed'' \<and> ev_object_id event = Some sid)
      | _ \<Rightarrow> False)"

fun call_for :: "string \<Rightarrow> confirm_call \<Rightarrow> bool" where
  "call_for sid (Pull e) = True"
| "call_for sid (Push e raw sig) = delivers e raw sig sid"

fun confirm :: "string \<Rightarrow> confirm_call \<Rightarrow> db \<Rightarrow> response \<times> db" where
  "confirm sid (Pull e) d = verify_session e d (Some sid)"
| "confirm sid (Push e raw sig) d = stripe_webhook e d raw sig"

fun confirm_all :: "string \<Rightarrow> confirm_call list \<Rightarrow> db \<Rightarrow> response list \<times> db" where
  "confirm_all sid [] d = ([], d)"
| "confirm_all sid (c # cs) d =
     (case confirm sid c d of
        (r, d') \<Rightarrow> (case confirm_all sid cs d' of (rs, d'') \<Rightarrow> (r # rs, d'')))"

fun idle_reply :: "confirm_call \<Rightarrow> response" where
  \<comment> \<open>what each path answers when there is nothing left to count\<close>
  "idle_reply (Pull e) = (200, AlreadyCounted)"
| "idle_reply (Push e raw sig) = (200, Received None)"


text \<open>
  The environment of a call; whether the provider reports the session paid in that call
  (the pull path asks for the session's payment status, the push path is told of its
  completion); whether the storage engine runs the unit of work without a fault; and what
  "both updates applied" means for a transaction found under a session id.
\<close>

fun call_env :: "confirm_call \<Rightarrow> env" where
  "call_env (Pull e) = e"
| "call_env (Push e raw sig) = e"

definition reports_paid :: "string \<Rightarrow> confirm_call \<Rightarrow> bool" where
  "reports_paid sid c \<longleftrightarrow>
     (case c of
        Pull e \<Rightarrow>
          (case stripe e of
             None \<Rightarrow> False
           | Some client \<Rightarrow>
              (case sessions_retrieve client sid of
                 Inl err \<Rightarrow> False
               | Inr session \<Rightarrow> payment_status session = ''paid''))
      | Push e raw sig \<Rightarrow> delivers e raw sig sid)"

definition storage_sound :: "env \<Rightarrow> bool" where
  "storage_sound e \<longleftrightarrow>
     sqlite_throws e MarkPaid = None \<and> sqlite_throws e IncTally = None \<and>
     sqlite_throws e Commit = None"

definition both_applied :: "string \<Rightarrow> transaction \<Rightarrow> db \<Rightarrow> db \<Rightarrow> bool" where
  "both_applied sid trx d d' \<longleftrightarrow>
     lookup_session d' (Some sid) = Some (trx\<lparr>paid := 1\<rparr>) \<and>
     tally_of d (candidate_id trx) \<noteq> None \<and>
     tally_of d' (candidate_id trx) = map_option (\<lambda>n. n + votes trx) (tally_of d (candidate_id trx))"

definition counted_store :: "string \<Rightarrow> transaction \<Rightarrow> db \<Rightarrow> db" where
  "counted_store sid trx d =
     d\<lparr>transactions :=
          map (\<lambda>t. if session_id t = Some sid then t\<lparr>paid := 1\<rparr> else t) (transactions d),
       candidates :=
          map (\<lambda>c. if cand_id c = candidate_id trx then c\<lparr>tally := tally c + votes trx\<rparr> else c)
            (candidates d)\<rparr>"

section \<open>A running example\<close>

text \<open>
  A payment client that creates the session \<open>cs_test_2\<close>, reports every session paid and
  accepts the signature \<open>good\<close> (for the completion of \<open>cs_test_1\<close>) and no other; a
  configured environment without storage faults; and the stores of one run: the seed, the
  first checkout (5 votes for candidate 1), its confirmation, a second checkout (3 votes).
\<close>

definition demo_client :: stripe_client where
  "demo_client =
     \<lparr>sessions_create = (\<lambda>p. Inr \<lparr>sess_id = ''cs_test_2'',
          sess_url = JStr ''https://checkout.stripe.com/c/pay/cs_test_2'',
          payment_status = ''unpaid''\<rparr>),
      sessions_retrieve = (\<lambda>sid. Inr \<lparr>sess_id = sid, sess_url = JNull, payment_status = ''paid''\<rparr>),
      constructEvent = (\<lambda>raw sig secret.
          if sig = Some ''good''
          then Inr \<lparr>ev_type = ''checkout.session.completed'', ev_object_id = Some ''cs_test_1''\<rparr>
          else Inl (JsError ''No signatures found matching the expected signature for payload''))\<rparr>"

definition demo_env :: env where
  "demo_env =
     \<lparr>FRONTEND_URL = ''http://localhost:5173'',
      INSTAGRAM_URL = ''https://instagram.com/Wiz_pharoah'',
      ADMIN_TOKEN = ''s3cret'',
      VOTE_PRICE_MINOR = 100,
      STRIPE_WEBHOOK_SECRET = Some ''whsec_1'',
      production = False,
      stripe = Some demo_client,
      sqlite_throws = (\<lambda>s. None),
      CURRENT_TIMESTAMP = ''2024-06-20 12:00:00''\<rparr>"

definition first_client :: stripe_client where
  \<comment> \<open>the client at the time of the first checkout: it creates \<open>cs_test_1\<close>\<close>
  "first_client =
     demo_client\<lparr>sessions_create := (\<lambda>p. Inr \<lparr>sess_id = ''cs_test_1'',
          sess_url = JStr ''https://checkout.stripe.com/c/pay/cs_test_1'',
          payment_status = ''unpaid''\<rparr>)\<rparr>"

definition pending_client :: stripe_client where
  \<comment> \<open>the provider has not seen a payment yet\<close>
  "pending_client =
     demo_client\<lparr>sessions_retrieve :=
       (\<lambda>sid. Inr \<lparr>sess_id = sid, sess_url = JNull, payment_status = ''unpaid''\<rparr>)\<rparr>"

definition failing_client :: stripe_client where
  \<comment> \<open>the provider cannot be reached\<close>
  "failing_client =
     demo_client\<lparr>sessions_create := (\<lambda>p. Inl (JsError ''connection refused''))\<rparr>"

definition unconfigured_env :: env where
  \<comment> \<open>no webhook secret on the server\<close>
  "unconfigured_env = demo_env\<lparr>STRIPE_WEBHOOK_SECRET := None\<rparr>"

definition faulty_env :: env where
  \<comment> \<open>the storage engine fails the tally update\<close>
  "faulty_env =
     demo_env\<lparr>sqlite_throws :=
       (\<lambda>s. if s = IncTally then Some (JsError ''database is locked'') else None)\<rparr>"

definition pending_env :: env where
  "pending_env = demo_env\<lparr>stripe := Some pending_client\<rparr>"

definition no_stripe_env :: env where
  \<comment> \<open>no payment client on the server\<close>
  "no_stripe_env = demo_env\<lparr>stripe := None\<rparr>"

definition failing_env :: env where
  "failing_env = demo_env\<lparr>stripe := Some failing_client\<rparr>"

definition ui0 :: ui_state where
  \<comment> \<open>the client with candidate 1 picked, 3 votes, paying in euros\<close>
  "ui0 =
     \<lparr>choiceId = Some 1, ui_votes = Fin 3, ui_currency = JStr ''eur'', ui_message = [],
      creating = False\<rparr>"

definition admin_body0 :: admin_body where
  \<comment> \<open>an admin write that supplies the question only\<close>
  "admin_body0 = \<lparr>ab_question = JStr ''Is it NO this week?'', ab_glow = JUndefined\<rparr>"

definition settings0 :: settings_row where
  "settings0 = \<lparr>question = Some ''Is this week's answer YES?'', glow = Some ''#00ffff''\<rparr>"

definition store0 :: db where
  "store0 =
     \<lparr>candidates = [\<lparr>cand_id = 1, cand_name = ''Yes'', tally = 0\<rparr>,
                    \<lparr>cand_id = 2, cand_name = ''No'', tally = 0\<rparr>],
      transactions = [],
      settings = Some settings0\<rparr>"

definition trx1 :: transaction where
  "trx1 =
     \<lparr>trx_id = 1, session_id = Some ''cs_test_1'', candidate_id = 1, votes = 5,
      currency = ''USD'', amount_total = 500, paid = 0, created_at = ''2024-06-20 12:00:00''\<rparr>"

definition trx2 :: transaction where
  "trx2 =
     \<lparr>trx_id = 2, session_id = Some ''cs_test_2'', candidate_id = 1, votes = 3,
      currency = ''USD'', amount_total = 300, paid = 0, created_at = ''2024-06-20 12:00:00''\<rparr>"

definition store1 :: db where
  "store1 = store0\<lparr>transactions := [trx1]\<rparr>"

definition store2 :: db where
  "store2 =
     \<lparr>candidates = [\<lparr>cand_id = 1, cand_name = ''Yes'', tally = 5\<rparr>,
                    \<lparr>cand_id = 2, cand_name = ''No'', tally = 0\<rparr>],
      transactions = [trx1\<lparr>paid := 1\<rparr>],
      settings = Some settings0\<rparr>"

definition store3 :: db where
  "store3 = store2\<lparr>transactions := [trx1\<lparr>paid := 1\<rparr>, trx2]\<rparr>"

definition store4 :: db where
  "store4 =
     \<lparr>candidates = [\<lparr>cand_id = 1, cand_name = ''Yes'', tally = 8\<rparr>,
                    \<lparr>cand_id = 2, cand_name = ''No'', tally = 0\<rparr>],
      transactions = [trx1\<lparr>paid := 1\<rparr>, trx2\<lparr>paid := 1\<rparr>],
      settings = Some settings0\<rparr>"

definition body5 :: checkout_body where
  "body5 =
     \<lparr>req_candidateId = Fin 1, req_votes = JInt 5, req_currency = JStr ''usd'',
      req_successUrl = JUndefined, req_cancelUrl = JUndefined\<rparr>"

definition body3 :: checkout_body where
  "body3 = body5\<lparr>req_votes := JInt 3\<rparr>"

section \<open>Lemmas about the store\<close>

lemma find_mark:
  "find (\<lambda>t. session_id t = Some sid)
     (map (\<lambda>t. if session_id t = Some sid then t\<lparr>paid := 1\<rparr> else t) ts) =
   map_option (\<lambda>t. t\<lparr>paid := 1\<rparr>) (find (\<lambda>t. session_id t = Some sid) ts)"
  by (induction ts) auto

lemma find_mark_other:
  "sid' \<noteq> sid \<Longrightarrow>
   find (\<lambda>t. session_id t = Some sid')
     (map (\<lambda>t. if session_id t = Some sid then t\<lparr>paid := 1\<rparr> else t) ts) =
   find (\<lambda>t. session_id t = Some sid') ts"
  by (induction ts) auto

lemma find_inc:
  "find (\<lambda>c. cand_id c = cid)
     (map (\<lambda>c. if cand_id c = cid then c\<lparr>tally := tally c + v\<rparr> else c) cs) =
   map_option (\<lambda>c. c\<lparr>tally := tally c + v\<rparr>) (find (\<lambda>c. cand_id c = cid) cs)"
  by (induction cs) auto

lemma find_inc_other:
  "cid' \<noteq> cid \<Longrightarrow>
   find (\<lambda>c. cand_id c = cid')
     (map (\<lambda>c. if cand_id c = cid then c\<lparr>tally := tally c + v\<rparr> else c) cs) =
   find (\<lambda>c. cand_id c = cid') cs"
  by (induction cs) auto

lemma mark_and_inc_sound:
  "storage_sound e \<Longrightarrow> mark_and_inc e (Some sid) trx d = Inr (counted_store sid trx d)"
  by (simp add: storage_sound_def mark_and_inc_def db_transaction_def mark_run_def inc_run_def
      counted_store_def)

lemma mark_and_inc_fault:
  "\<not> storage_sound e \<Longrightarrow> \<exists>err. mark_and_inc e k trx d = Inl err"
  by (auto simp: storage_sound_def mark_and_inc_def db_transaction_def mark_run_def inc_run_def
      split: option.splits sum.splits)

lemma counted_store_both:
  assumes "lookup_session d (Some sid) = Some trx"
    and "find (\<lambda>c. cand_id c = candidate_id trx) (candidates d) \<noteq> None"
  shows "both_applied sid trx d (counted_store sid trx d)"
  using assms
  by (auto simp: both_applied_def counted_store_def lookup_session_def tally_of_def find_mark
      find_inc option.map_comp comp_def)

lemma store_ok_candidate:
  assumes "store_ok d" and "lookup_session d (Some sid) = Some trx"
  shows "find (\<lambda>c. cand_id c = candidate_id trx) (candidates d) \<noteq> None"
    and "1 \<le> votes trx"
proof -
  from assms(2) have "trx \<in> set (transactions d)"
    by (auto simp: lookup_session_def find_Some_iff)
  with assms(1) show "find (\<lambda>c. cand_id c = candidate_id trx) (candidates d) \<noteq> None"
    and "1 \<le> votes trx"
    by (auto simp: store_ok_def trx_ok_def list_all_iff)
qed

lemma verify_paid:
  assumes "lookup_session d (Some sid) = Some trx" and "paid trx \<noteq> 0" and "sid \<noteq> []"
  shows "verify_session e d (Some sid) = ((200, AlreadyCounted), d)"
  using assms by (simp add: verify_session_def)

lemma verify_counts:
  assumes "lookup_session d (Some sid) = Some trx" and "paid trx = 0" and "sid \<noteq> []"
    and "reports_paid sid (Pull e)" and "storage_sound e"
  shows "verify_session e d (Some sid) = ((200, Counted), counted_store sid trx d)"
  using assms
  by (auto simp: verify_session_def reports_paid_def mark_and_inc_sound
      split: option.splits sum.splits)

lemma verify_idle:
  assumes "lookup_session d (Some sid) = Some trx" and "paid trx = 0"
    and "\<not> (reports_paid sid (Pull e) \<and> storage_sound e)"
  shows "snd (verify_session e d (Some sid)) = d"
  using assms mark_and_inc_fault [of e "Some sid" trx d]
  by (auto simp: verify_session_def reports_paid_def split: option.splits sum.splits)

lemma webhook_paid:
  assumes "lookup_session d (Some sid) = Some trx" and "paid trx \<noteq> 0"
    and "delivers e raw sig sid"
  shows "stripe_webhook e d raw sig = ((200, Received None), d)"
  using assms
  by (auto simp: stripe_webhook_def delivers_def split: option.splits sum.splits)

lemma webhook_counts:
  assumes "lookup_session d (Some sid) = Some trx" and "paid trx = 0"
    and "delivers e raw sig sid" and "storage_sound e"
  shows "stripe_webhook e d raw sig = ((200, Received None), counted_store sid trx d)"
  using assms
  by (auto simp: stripe_webhook_def delivers_def mark_and_inc_sound split: option.splits sum.splits)

lemma webhook_idle:
  assumes "lookup_session d (Some sid) = Some trx" and "paid trx = 0"
    and "delivers e raw sig sid" and "\<not> storage_sound e"
  shows "snd (stripe_webhook e d raw sig) = d"
  using assms mark_and_inc_fault [of e "Some sid" trx d]
  by (auto simp: stripe_webhook_def delivers_def split: option.splits sum.splits)

lemma checkout_votes_pos: "1 \<le> checkout_votes v"
  by (simp add: checkout_votes_def split: option.splits)

lemma insert_candidates_tallies:
  "insert_candidates ns cs = Inr cs' \<Longrightarrow> list_all (\<lambda>c. 0 \<le> tally c) cs \<Longrightarrow>
     list_all (\<lambda>c. 0 \<le> tally c) cs'"
  by (induction ns cs rule: insert_candidates.induct) (auto split: if_splits)

lemma insert_candidates_zero:
  "insert_candidates ns cs = Inr cs' \<Longrightarrow> list_all (\<lambda>c. tally c = 0) cs \<Longrightarrow>
     list_all (\<lambda>c. tally c = 0) cs'"
  by (induction ns cs rule: insert_candidates.induct) (auto split: if_splits)

lemma store_ok_no_candidates:
  "store_ok d \<Longrightarrow> candidates d = [] \<Longrightarrow> transactions d = []"
  by (cases "transactions d") (auto simp: store_ok_def trx_ok_def)

lemma startup_ok:
  assumes "store_ok d" and "startup cs d = Inr d'"
  shows "store_ok d'"
proof (cases "candidates d = []")
  case True
  with assms(1) have "transactions d = []" by (rule store_ok_no_candidates)
  with assms True show ?thesis
    by (auto simp: startup_def store_ok_def Let_def split: option.splits sum.splits
        dest: insert_candidates_tallies)
next
  case False
  with assms show ?thesis
    by (auto simp: startup_def store_ok_def Let_def split: option.splits sum.splits)
qed

lemma empty_db_ok: "store_ok empty_db"
  by (simp add: store_ok_def empty_db_def)

lemma startup_candidates:
  assumes "startup cs d = Inr d'"
  shows "candidates d \<noteq> [] \<longrightarrow> candidates d' = candidates d"
  using assms by (auto simp: startup_def Let_def split: option.splits sum.splits if_splits)

lemma find_inc_defined:
  "find (\<lambda>c. cand_id c = k)
     (map (\<lambda>c. if cand_id c = cid then c\<lparr>tally := tally c + v\<rparr> else c) cs) \<noteq> None
   \<longleftrightarrow> find (\<lambda>c. cand_id c = k) cs \<noteq> None"
  by (cases "k = cid") (simp_all add: find_inc find_inc_other)

lemma trx_ok_step:
  assumes "trx_ok cs t"
  shows "trx_ok (map (\<lambda>c. if cand_id c = cid then c\<lparr>tally := tally c + v\<rparr> else c) cs)
           (if session_id t = Some sid then t\<lparr>paid := 1\<rparr> else t)"
proof -
  have "find (\<lambda>c. cand_id c = candidate_id t)
          (map (\<lambda>c. if cand_id c = cid then c\<lparr>tally := tally c + v\<rparr> else c) cs) \<noteq> None"
    using assms find_inc_defined [of "candidate_id t" cid v cs] unfolding trx_ok_def by blast
  with assms show ?thesis unfolding trx_ok_def by simp
qed

lemma counted_store_ok:
  assumes "store_ok d" and "lookup_session d (Some sid) = Some trx"
  shows "store_ok (counted_store sid trx d)"
proof -
  let ?inc = "\<lambda>c. if cand_id c = candidate_id trx then c\<lparr>tally := tally c + votes trx\<rparr> else c"
  let ?mark = "\<lambda>t. if session_id t = Some sid then t\<lparr>paid := 1\<rparr> else t"
  have v: "1 \<le> votes trx" using store_ok_candidate(2) [OF assms] .
  from assms(1) have c: "list_all (\<lambda>c. 0 \<le> tally c) (candidates d)"
    and t: "list_all (trx_ok (candidates d)) (transactions d)"
    by (simp_all add: store_ok_def)
  have "list_all ((\<lambda>c. 0 \<le> tally c) \<circ> ?inc) (candidates d)"
    using c by (rule list.pred_mono_strong) (use v in auto)
  then have c': "list_all (\<lambda>c. 0 \<le> tally c) (map ?inc (candidates d))"
    by (simp add: list.pred_map)
  have "list_all (trx_ok (map ?inc (candidates d)) \<circ> ?mark) (transactions d)"
    using t by (rule list.pred_mono_strong) (simp add: trx_ok_step)
  then have t': "list_all (trx_ok (map ?inc (candidates d))) (map ?mark (transactions d))"
    by (simp add: list.pred_map)
  from c' t' show ?thesis
    by (simp add: store_ok_def counted_store_def)
qed

lemma mark_and_inc_Inr:
  "mark_and_inc e (Some sid) trx d = Inr d' \<Longrightarrow> d' = counted_store sid trx d"
  by (auto simp: mark_and_inc_def db_transaction_def mark_run_def inc_run_def
      counted_store_def split: option.splits sum.splits)

lemma verify_session_cases:
  "verify_session e d q = (r, d') \<Longrightarrow>
     d' = d \<or> (\<exists>sid trx. q = Some sid \<and> lookup_session d (Some sid) = Some trx \<and> paid trx = 0 \<and>
                d' = counted_store sid trx d)"
  unfolding verify_session_def
  by (auto split: option.splits sum.splits if_splits dest: mark_and_inc_Inr)

lemma stripe_webhook_cases:
  "stripe_webhook e d raw sig = (r, d') \<Longrightarrow>
     d' = d \<or> (\<exists>sid trx. lookup_session d (Some sid) = Some trx \<and> paid trx = 0 \<and>
                d' = counted_store sid trx d)"
  unfolding stripe_webhook_def
  by (auto split: option.splits sum.splits if_splits dest: mark_and_inc_Inr
      simp: lookup_session_def)

lemma admin_settings_tables:
  "admin_settings e d hdr b = (r, d') \<Longrightarrow>
     candidates d' = candidates d \<and> transactions d' = transactions d"
  by (auto simp: admin_settings_def update_settings_def split: option.splits sum.splits if_splits)

lemma checkout_cases:
  "create_checkout_session e d b = (r, d') \<Longrightarrow>
     d' = d \<or> (\<exists>row. d' = d\<lparr>transactions := transactions d @ [row]\<rparr> \<and>
                  session_id row \<noteq> None \<and> votes row = checkout_votes (req_votes b) \<and>
                  paid row = 0 \<and>
                  find (\<lambda>c. cand_id c = candidate_id row) (candidates d) \<noteq> None)"
  by (auto simp: create_checkout_session_def insert_transaction_def
      split: option.splits sum.splits if_splits)

lemma handle_ok:
  assumes "store_ok d" and "handle e d r = (resp, d')"
  shows "store_ok d'"
proof (cases r)
  case GetSettings
  with assms show ?thesis by (simp add: get_settings_def Let_def) 
next
  case GetTally
  with assms show ?thesis by (auto simp: get_tally_def)
next
  case (PostAdminSettings hdr b)
  with assms show ?thesis by (auto simp: store_ok_def dest!: admin_settings_tables)
next
  case (PostCreateCheckoutSession b)
  with assms(2) have "create_checkout_session e d b = (resp, d')" by simp
  from checkout_cases [OF this] assms(1) show ?thesis
    using checkout_votes_pos [of "req_votes b"] by (auto simp: store_ok_def trx_ok_def)
next
  case (GetVerifySession q)
  with assms(2) have "verify_session e d q = (resp, d')" by simp
  from verify_session_cases [OF this] assms(1) show ?thesis
    by (auto intro: counted_store_ok)
next
  case (PostStripeWebhook raw sig)
  with assms(2) have "stripe_webhook e d raw sig = (resp, d')" by simp
  from stripe_webhook_cases [OF this] assms(1) show ?thesis
    by (auto intro: counted_store_ok)
qed

lemma reachable_ok: "reachable d \<Longrightarrow> store_ok d"
proof (induction rule: reachable.induct)
  case (first_start cs d)
  then show ?case using startup_ok [OF empty_db_ok] by blast
next
  case (restart d cs d')
  then show ?case using startup_ok by blast
next
  case (request d e r resp d')
  then show ?case using handle_ok by blast
qed

lemma counted_store_lookup:
  assumes "lookup_session d (Some sid) = Some trx"
  shows "lookup_session (counted_store sid trx d) (Some sid) = Some (trx\<lparr>paid := 1\<rparr>)"
  using assms by (simp add: lookup_session_def counted_store_def find_mark)

lemma counted_store_tally:
  "tally_of (counted_store sid trx d) (candidate_id trx) =
     map_option (\<lambda>n. n + votes trx) (tally_of d (candidate_id trx))"
  by (simp add: tally_of_def counted_store_def find_inc option.map_comp comp_def)

lemma confirm_paid:
  assumes "lookup_session d (Some sid) = Some trx" and "paid trx \<noteq> 0" and "sid \<noteq> []"
    and "call_for sid c"
  shows "confirm sid c d = (idle_reply c, d)"
proof (cases c)
  case (Pull e)
  with assms show ?thesis by (simp add: verify_paid)
next
  case (Push e raw sig)
  with assms show ?thesis by (simp add: webhook_paid)
qed

lemma confirm_all_paid:
  assumes "lookup_session d (Some sid) = Some trx" and "paid trx \<noteq> 0" and "sid \<noteq> []"
    and "list_all (call_for sid) calls"
  shows "confirm_all sid calls d = (map idle_reply calls, d)"
  using assms(4)
proof (induction calls)
  case Nil
  show ?case by simp
next
  case (Cons c cs)
  then have "confirm sid c d = (idle_reply c, d)"
    using confirm_paid [OF assms(1-3)] by simp
  with Cons show ?case by simp
qed

lemma confirm_unpaid:
  assumes "lookup_session d (Some sid) = Some trx" and "paid trx = 0" and "sid \<noteq> []"
    and "call_for sid c"
  shows "reports_paid sid c \<and> storage_sound (call_env c) \<Longrightarrow>
           confirm sid c d = (case c of Pull e \<Rightarrow> (200, Counted) | Push e raw sig \<Rightarrow> (200, Received None),
                              counted_store sid trx d)"
    and "\<not> (reports_paid sid c \<and> storage_sound (call_env c)) \<Longrightarrow> snd (confirm sid c d) = d"
proof -
  show "confirm sid c d = (case c of Pull e \<Rightarrow> (200, Counted) | Push e raw sig \<Rightarrow> (200, Received None),
                              counted_store sid trx d)"
    if "reports_paid sid c \<and> storage_sound (call_env c)"
  proof (cases c)
    case (Pull e)
    with assms that show ?thesis by (simp add: verify_counts)
  next
    case (Push e raw sig)
    with assms that show ?thesis by (simp add: webhook_counts)
  qed
  show "snd (confirm sid c d) = d" if "\<not> (reports_paid sid c \<and> storage_sound (call_env c))"
  proof (cases c)
    case (Pull e)
    with assms that show ?thesis using verify_idle [of d sid trx e] by simp
  next
    case (Push e raw sig)
    with assms that show ?thesis
      using webhook_idle [of d sid trx e raw sig] by (simp add: reports_paid_def)
  qed
qed


section \<open>The running example, evaluated\<close>

lemmas js_defs = parseInt10_def is_js_space_def is_digit_def digits_value_def digit_val_def
  show_int_def digits_of.simps digit_char_def toUpperCase_def to_upper_def

lemmas sql_defs = lookup_candidate_def lookup_session_def next_id_def insert_transaction_def
  mark_run_def inc_run_def db_transaction_def mark_and_inc_def

lemmas checkout_defs = create_checkout_session_def checkout_session_params_def
  checkout_votes_def checkout_currency_def priceMinor_def or_default_def product_name_def
  checkout_failed_def

lemmas demo_defs = demo_client_def demo_env_def first_client_def pending_client_def
  failing_client_def unconfigured_env_def faulty_env_def pending_env_def no_stripe_env_def
  failing_env_def ui0_def admin_body0_def
  settings0_def store0_def store1_def store2_def
  store3_def store4_def trx1_def trx2_def body5_def body3_def

lemma run0: "startup None empty_db = Inr store0"
  by (simp add: startup_def empty_db_def seed_names_def trim_def is_js_space_def next_id_def demo_defs)

lemma run1: "create_checkout_session (demo_env\<lparr>stripe := Some first_client\<rparr>) store0 body5
   = ((200, CheckoutJson ''cs_test_1'' (JStr ''https://checkout.stripe.com/c/pay/cs_test_1'')), store1)"
  by (simp add: checkout_defs js_defs sql_defs demo_defs)

lemma run2: "verify_session demo_env store1 (Some ''cs_test_1'') = ((200, Counted), store2)"
  by (simp add: verify_session_def sql_defs demo_defs)

lemma run3: "create_checkout_session demo_env store2 body3
   = ((200, CheckoutJson ''cs_test_2'' (JStr ''https://checkout.stripe.com/c/pay/cs_test_2'')), store3)"
  by (simp add: checkout_defs js_defs sql_defs demo_defs)

lemma run4: "verify_session demo_env store3 (Some ''cs_test_2'') = ((200, Counted), store4)"
  by (simp add: verify_session_def sql_defs demo_defs)

lemma reachable_store0: "reachable store0"
  using run0 by (rule reachable.first_start)

lemma reachable_store1: "reachable store1"
  using reachable.request [OF reachable_store0, of _ "PostCreateCheckoutSession body5"] run1
  by simp

lemma reachable_store2: "reachable store2"
  using reachable.request [OF reachable_store1, of _ "GetVerifySession (Some ''cs_test_1'')"] run2
  by simp

lemma reachable_store3: "reachable store3"
  using reachable.request [OF reachable_store2, of _ "PostCreateCheckoutSession body3"] run3
  by simp

lemma demo_delivers: "delivers demo_env ''{}'' (Some ''good'') ''cs_test_1''"
  by (simp add: delivers_def demo_defs)

lemma lookup_store1: "lookup_session store1 (Some ''cs_test_1'') = Some trx1"
  by (simp add: lookup_session_def demo_defs)

lemma lookup_store2: "lookup_session store2 (Some ''cs_test_1'') = Some (trx1\<lparr>paid := 1\<rparr>)"
  by (simp add: lookup_session_def demo_defs)

section \<open>Confirming a payment\<close>

text \<open>
  Claim C1. For a transaction whose paid flag is already set, a further confirmation with
  its session id mutates nothing, however often it is repeated and on whichever path: the
  pull path (\<open>/api/verify-session\<close>) answers "already counted", the push path
  (\<open>/api/stripe/webhook\<close>, on a verified completion event of that session) answers its
  ordinary acknowledgement \<open>{received: true}\<close>. So once a confirmation has counted a
  transaction, the candidate's tally stays at the old tally plus the transaction's votes
  through all further confirmations: the votes are counted exactly once.
\<close>

theorem paid_session_counted_once:
  assumes "lookup_session d (Some sid) = Some trx" and "sid \<noteq> []"
    and "list_all (call_for sid) calls"
  shows "(paid trx \<noteq> 0 \<longrightarrow> confirm_all sid calls d = (map idle_reply calls, d)) \<and>
         (paid trx = 0 \<longrightarrow> call_for sid c \<longrightarrow> snd (confirm sid c d) \<noteq> d \<longrightarrow>
            confirm_all sid (c # calls) d =
              (fst (confirm sid c d) # map idle_reply calls, snd (confirm sid c d)) \<and>
            tally_of (snd (confirm_all sid (c # calls) d)) (candidate_id trx) =
              map_option (\<lambda>n. n + votes trx) (tally_of d (candidate_id trx)))"
proof (intro conjI impI)
  assume "paid trx \<noteq> 0"
  then show "confirm_all sid calls d = (map idle_reply calls, d)"
    using confirm_all_paid assms by blast
next
  assume u: "paid trx = 0" and c: "call_for sid c" and ch: "snd (confirm sid c d) \<noteq> d"
  have rp: "reports_paid sid c \<and> storage_sound (call_env c)"
    using confirm_unpaid(2) [OF assms(1) u assms(2) c] ch by blast
  have d1: "snd (confirm sid c d) = counted_store sid trx d"
    using confirm_unpaid(1) [OF assms(1) u assms(2) c rp] by simp
  have "lookup_session (counted_store sid trx d) (Some sid) = Some (trx\<lparr>paid := 1\<rparr>)"
    using assms(1) by (rule counted_store_lookup)
  then have rest: "confirm_all sid calls (counted_store sid trx d) =
      (map idle_reply calls, counted_store sid trx d)"
    using confirm_all_paid [of "counted_store sid trx d" sid "trx\<lparr>paid := 1\<rparr>" calls] assms(2,3)
    by simp
  show all: "confirm_all sid (c # calls) d =
      (fst (confirm sid c d) # map idle_reply calls, snd (confirm sid c d))"
    using d1 rest by (simp add: case_prod_unfold)
  show "tally_of (snd (confirm_all sid (c # calls) d)) (candidate_id trx) =
      map_option (\<lambda>n. n + votes trx) (tally_of d (candidate_id trx))"
    unfolding all using d1 by (simp add: counted_store_tally)
qed

text \<open>
  Witness for C1: in the running example, two further confirmations of the counted
  session \<open>cs_test_1\<close> leave the store as it is; and from the store before the payment,
  the first pull counts the 5 votes (tally 0 to 5) and the two further calls change nothing.
\<close>

theorem paid_session_counted_once_witness:
  "lookup_session store2 (Some ''cs_test_1'') = Some (trx1\<lparr>paid := 1\<rparr>) \<and>
   confirm_all ''cs_test_1'' [Pull demo_env, Push demo_env ''{}'' (Some ''good'')] store2 =
     ([(200, AlreadyCounted), (200, Received None)], store2) \<and>
   lookup_session store1 (Some ''cs_test_1'') = Some trx1 \<and>
   confirm_all ''cs_test_1''
     [Pull demo_env, Pull demo_env, Push demo_env ''{}'' (Some ''good'')] store1 =
     ([(200, Counted), (200, AlreadyCounted), (200, Received None)], store2) \<and>
   tally_of store1 1 = Some 0 \<and> tally_of store2 1 = Some 5"
proof -
  let ?calls = "[Pull demo_env, Push demo_env ''{}'' (Some ''good'')]"
  have calls: "list_all (call_for ''cs_test_1'') ?calls"
    by (simp add: demo_delivers)
  have p2: "paid (trx1\<lparr>paid := 1\<rparr>) \<noteq> 0" and p1: "paid trx1 = 0"
    by (simp_all add: trx1_def)
  have first: "confirm ''cs_test_1'' (Pull demo_env) store1 = ((200, Counted), store2)"
    by (simp add: run2)
  have neq: "store2 \<noteq> store1"
    by (simp add: demo_defs)
  have a: "confirm_all ''cs_test_1'' ?calls store2 = (map idle_reply ?calls, store2)"
    using paid_session_counted_once [OF lookup_store2 _ calls] p2 by simp
  have b: "confirm_all ''cs_test_1'' (Pull demo_env # ?calls) store1 =
      (fst (confirm ''cs_test_1'' (Pull demo_env) store1) # map idle_reply ?calls,
       snd (confirm ''cs_test_1'' (Pull demo_env) store1))"
    using paid_session_counted_once [OF lookup_store1 _ calls, of "Pull demo_env"] p1 first neq
    by simp
  have t: "tally_of store1 1 = Some 0" "tally_of store2 1 = Some 5"
    by (simp_all add: tally_of_def demo_defs)
  from a b first t show ?thesis
    by (simp add: lookup_store1 lookup_store2)
qed

text \<open>
  Counterexample to C1 as it is worded: for the already paid session \<open>cs_test_1\<close> the push
  path, given a verified completion event of that session, answers \<open>{received: true}\<close>,
  which is not the "already counted" result (the store is unchanged, as claimed).
\<close>

theorem push_reply_counterexample:
  "lookup_session store2 (Some ''cs_test_1'') = Some (trx1\<lparr>paid := 1\<rparr>) \<and>
   paid (trx1\<lparr>paid := 1\<rparr>) = 1 \<and>
   delivers demo_env ''{}'' (Some ''good'') ''cs_test_1'' \<and>
   stripe_webhook demo_env store2 ''{}'' (Some ''good'') = ((200, Received None), store2) \<and>
   Received None \<noteq> AlreadyCounted"
  by (simp add: lookup_store2 demo_delivers webhook_paid [OF lookup_store2] trx1_def)


text \<open>
  Claim C2. On both paths, for a transaction that is not yet paid in a store the server can
  reach: when the provider reports the session paid and the storage engine runs the unit of
  work without a fault, both updates are applied (the transaction is marked paid and its
  candidate's tally has grown by its votes) and the path gives its reply of success; in
  every other case, also when a statement of the unit or its commit fails after the first
  update, the store is left exactly as it was.
\<close>

theorem confirmation_atomic:
  assumes "reachable d" and "lookup_session d (Some sid) = Some trx" and "paid trx = 0"
    and "sid \<noteq> []" and "call_for sid c"
  shows "(reports_paid sid c \<and> storage_sound (call_env c) \<longrightarrow>
            both_applied sid trx d (snd (confirm sid c d)) \<and>
            fst (confirm sid c d) =
              (case c of Pull e \<Rightarrow> (200, Counted) | Push e raw sig \<Rightarrow> (200, Received None))) \<and>
         (\<not> (reports_paid sid c \<and> storage_sound (call_env c)) \<longrightarrow> snd (confirm sid c d) = d)"
proof (intro conjI impI)
  assume rp: "reports_paid sid c \<and> storage_sound (call_env c)"
  show "fst (confirm sid c d) =
      (case c of Pull e \<Rightarrow> (200, Counted) | Push e raw sig \<Rightarrow> (200, Received None))"
    using confirm_unpaid(1) [OF assms(2-5) rp] by simp
  have "store_ok d" using assms(1) by (rule reachable_ok)
  then have "find (\<lambda>c. cand_id c = candidate_id trx) (candidates d) \<noteq> None"
    using assms(2) by (rule store_ok_candidate)
  then have "both_applied sid trx d (counted_store sid trx d)"
    using assms(2) counted_store_both by blast
  then show "both_applied sid trx d (snd (confirm sid c d))"
    using confirm_unpaid(1) [OF assms(2-5) rp] by simp
next
  assume "\<not> (reports_paid sid c \<and> storage_sound (call_env c))"
  then show "snd (confirm sid c d) = d"
    by (rule confirm_unpaid(2) [OF assms(2-5)])
qed

text \<open>
  Witness for C2: the pending transaction of the running example is counted by the pull
  path and by the push path with both updates; when the tally update fails, the pull path
  leaves the store unchanged although the first update had run.
\<close>

theorem confirmation_atomic_witness:
  "reachable store1 \<and> lookup_session store1 (Some ''cs_test_1'') = Some trx1 \<and> paid trx1 = 0 \<and>
   both_applied ''cs_test_1'' trx1 store1 (snd (verify_session demo_env store1 (Some ''cs_test_1''))) \<and>
   both_applied ''cs_test_1'' trx1 store1 (snd (stripe_webhook demo_env store1 ''{}'' (Some ''good''))) \<and>
   reports_paid ''cs_test_1'' (Pull faulty_env) \<and> \<not> storage_sound faulty_env \<and>
   snd (verify_session faulty_env store1 (Some ''cs_test_1'')) = store1"
proof -
  have p: "paid trx1 = 0" by (simp add: trx1_def)
  have s: "storage_sound demo_env" "\<not> storage_sound faulty_env"
    by (simp_all add: storage_sound_def demo_defs)
  have r: "reports_paid ''cs_test_1'' (Pull demo_env)" "reports_paid ''cs_test_1'' (Pull faulty_env)"
    "reports_paid ''cs_test_1'' (Push demo_env ''{}'' (Some ''good''))"
    by (simp_all add: reports_paid_def delivers_def demo_defs)
  have 1: "both_applied ''cs_test_1'' trx1 store1 (snd (confirm ''cs_test_1'' (Pull demo_env) store1))"
    using confirmation_atomic [OF reachable_store1 lookup_store1 p, of "Pull demo_env"] r s
    by simp
  have 2: "both_applied ''cs_test_1'' trx1 store1
      (snd (confirm ''cs_test_1'' (Push demo_env ''{}'' (Some ''good'')) store1))"
    using confirmation_atomic [OF reachable_store1 lookup_store1 p,
        of "Push demo_env ''{}'' (Some ''good'')"] r s demo_delivers
    by simp
  have 3: "snd (confirm ''cs_test_1'' (Pull faulty_env) store1) = store1"
    using confirmation_atomic [OF reachable_store1 lookup_store1 p, of "Pull faulty_env"] s
    by simp
  from 1 2 3 show ?thesis
    using reachable_store1 lookup_store1 p r s by simp
qed

text \<open>
  Claim C5. For a transaction that is not paid, if the provider reports the session as not
  paid, the pull path answers "not yet paid" and leaves the whole store unchanged; a later
  call, once the provider reports the payment, counts it.
\<close>

theorem unpaid_session_not_counted:
  assumes "lookup_session d (Some sid) = Some trx" and "paid trx = 0" and "sid \<noteq> []"
    and "stripe e = Some client" and "sessions_retrieve client sid = Inr session"
    and "payment_status session \<noteq> ''paid''"
  shows "verify_session e d (Some sid) = ((200, NotPaid), d) \<and>
         (reports_paid sid (Pull e') \<and> storage_sound e' \<longrightarrow>
            fst (verify_session e' (snd (verify_session e d (Some sid))) (Some sid)) = (200, Counted))"
proof -
  have 1: "verify_session e d (Some sid) = ((200, NotPaid), d)"
    using assms by (simp add: verify_session_def)
  have "fst (verify_session e' d (Some sid)) = (200, Counted)"
    if "reports_paid sid (Pull e') \<and> storage_sound e'"
    using that verify_counts [OF assms(1-3), of e'] by simp
  with 1 show ?thesis by simp
qed

text \<open>
  Witness for C5: the pending transaction of the running example, first with a provider
  that has not seen the payment, then with one that has.
\<close>

theorem unpaid_session_not_counted_witness:
  "lookup_session store1 (Some ''cs_test_1'') = Some trx1 \<and> paid trx1 = 0 \<and>
   verify_session pending_env store1 (Some ''cs_test_1'') = ((200, NotPaid), store1) \<and>
   fst (verify_session demo_env
          (snd (verify_session pending_env store1 (Some ''cs_test_1''))) (Some ''cs_test_1''))
     = (200, Counted)"
proof -
  have p: "paid trx1 = 0" by (simp add: trx1_def)
  have c: "stripe pending_env = Some pending_client" by (simp add: demo_defs)
  have r: "sessions_retrieve pending_client ''cs_test_1'' =
      Inr \<lparr>sess_id = ''cs_test_1'', sess_url = JNull, payment_status = ''unpaid''\<rparr>"
    by (simp add: demo_defs)
  have s: "reports_paid ''cs_test_1'' (Pull demo_env) \<and> storage_sound demo_env"
    by (simp add: reports_paid_def storage_sound_def demo_defs)
  show ?thesis
    using unpaid_session_not_counted [OF lookup_store1 p _ c r, of demo_env] s p
    by (auto simp: lookup_store1)
qed

text \<open>
  Claim C6. When the webhook secret and the payment client are configured, a request whose
  signature over the raw body does not verify is rejected with status 400 and nothing is
  processed: the store is unchanged.
\<close>

theorem bad_signature_rejected:
  assumes "STRIPE_WEBHOOK_SECRET e = Some secret" and "secret \<noteq> []" and "stripe e = Some client"
    and "constructEvent client raw sig secret = Inl err"
  shows "stripe_webhook e d raw sig = ((400, TextBody (''Webhook Error: '' @ message err)), d)"
  using assms by (simp add: stripe_webhook_def webhook_error_def)

text \<open>
  Witness for C6: a forged signature against the configured server of the running example.
\<close>

theorem bad_signature_rejected_witness:
  "constructEvent demo_client ''{}'' (Some ''forged'') ''whsec_1'' =
     Inl (JsError ''No signatures found matching the expected signature for payload'') \<and>
   stripe_webhook demo_env store1 ''{}'' (Some ''forged'') =
     ((400, TextBody ''Webhook Error: No signatures found matching the expected signature for payload''),
      store1)"
proof -
  have c: "constructEvent demo_client ''{}'' (Some ''forged'') ''whsec_1'' =
     Inl (JsError ''No signatures found matching the expected signature for payload'')"
    by (simp add: demo_defs)
  have "STRIPE_WEBHOOK_SECRET demo_env = Some ''whsec_1''" "stripe demo_env = Some demo_client"
    by (simp_all add: demo_defs)
  from bad_signature_rejected [OF this(1) _ this(2) c, of store1] c show ?thesis
    by simp
qed

text \<open>
  Counterexample to C6 as it is worded (for every webhook request): on a server without a
  webhook secret the same forged request is answered 200 \<open>{received: true}\<close>, not with a
  client error (the store is unchanged).
\<close>

theorem unverified_accepted_counterexample:
  "constructEvent demo_client ''{}'' (Some ''forged'') ''whsec_1'' =
     Inl (JsError ''No signatures found matching the expected signature for payload'') \<and>
   stripe unconfigured_env = Some demo_client \<and>
   stripe_webhook unconfigured_env store1 ''{}'' (Some ''forged'') =
     ((200, Received (Some ''webhook not configured'')), store1)"
  by (simp add: stripe_webhook_def demo_defs)

text \<open>
  Claim C10. If the webhook secret or the payment client is not configured, the push path
  answers every request with the successful "received" reply, whatever its body and
  signature (no verification takes place), and leaves the store unchanged.
\<close>

theorem unconfigured_webhook_accepts:
  assumes "STRIPE_WEBHOOK_SECRET e = None \<or> STRIPE_WEBHOOK_SECRET e = Some [] \<or> stripe e = None"
  shows "stripe_webhook e d raw sig = ((200, Received (Some ''webhook not configured'')), d)"
  using assms by (auto simp: stripe_webhook_def split: option.splits)

text \<open>
  Witness for C10: a server without the secret and a server without the payment client.
\<close>

theorem unconfigured_webhook_accepts_witness:
  "STRIPE_WEBHOOK_SECRET unconfigured_env = None \<and> stripe no_stripe_env = None \<and>
   stripe_webhook unconfigured_env store1 ''{}'' (Some ''good'') =
     ((200, Received (Some ''webhook not configured'')), store1) \<and>
   stripe_webhook unconfigured_env store1 ''{}'' (Some ''forged'') =
     ((200, Received (Some ''webhook not configured'')), store1) \<and>
   stripe_webhook no_stripe_env store1 ''{}'' None =
     ((200, Received (Some ''webhook not configured'')), store1)"
proof -
  have u: "STRIPE_WEBHOOK_SECRET unconfigured_env = None" "stripe no_stripe_env = None"
    by (simp_all add: demo_defs)
  from unconfigured_webhook_accepts [of unconfigured_env store1 "''{}''" "Some ''good''"]
    unconfigured_webhook_accepts [of unconfigured_env store1 "''{}''" "Some ''forged''"]
    unconfigured_webhook_accepts [of no_stripe_env store1 "''{}''" None] u
  show ?thesis by simp
qed

section \<open>Starting a checkout\<close>

subsection \<open>Reading a decimal rendering back\<close>















lemma lookup_candidate_Some:
  assumes "lookup_candidate d n = Some cand"
  shows "isFinite n" and "find (\<lambda>c. cand_id c = cand_id cand) (candidates d) \<noteq> None"
proof -
  from assms obtain q where n: "n = Fin q"
    by (cases n) (simp_all add: lookup_candidate_def)
  then show "isFinite n" by simp
  from assms n have "cand \<in> set (candidates d)"
    by (auto simp: lookup_candidate_def find_Some_iff)
  then show "find (\<lambda>c. cand_id c = cand_id cand) (candidates d) \<noteq> None"
    by (auto simp: find_None_iff)
qed

subsection \<open>The checkout initiator\<close>



text \<open>
  Counterexample to C4 as it is worded: the server's checkout initiator makes no check of
  the currency. A request for THB, which is not in the supported list, creates an external
  session and persists a transaction row when the provider accepts it.
\<close>

theorem unsupported_currency_counterexample:
  "\<not> isValidCurrency (JStr ''THB'') currencies \<and>
   create_checkout_session demo_env store2 (body3\<lparr>req_currency := JStr ''THB''\<rparr>) =
     ((200, CheckoutJson ''cs_test_2'' (JStr ''https://checkout.stripe.com/c/pay/cs_test_2'')),
      store2\<lparr>transactions := [trx1\<lparr>paid := 1\<rparr>, trx2\<lparr>currency := ''THB''\<rparr>]\<rparr>)"
  by (simp add: isValidCurrency_def currencies_def checkout_defs js_defs sql_defs
      demo_defs)

text \<open>
  Claim C4. The currency is checked by the client: its \<open>createCheckout\<close> sends no request
  to the server when the currency is not in the supported list, and (a candidate being
  picked) shows "Unsupported currency."; every request it does send carries a supported
  currency. The server forwards the upper-cased code of a request to the provider and
  persists a row with that code whenever the provider creates the session.
\<close>

theorem currency_checked_by_client:
  "(\<not> isValidCurrency (ui_currency st) currencies \<longrightarrow>
      snd (createCheckout origin st) = None \<and>
      (choiceId st \<noteq> None \<and> choiceId st \<noteq> Some 0 \<longrightarrow>
         ui_message (fst (createCheckout origin st)) = ''Unsupported currency.'')) \<and>
   (\<forall>body. snd (createCheckout origin st) = Some body \<longrightarrow>
      isValidCurrency (fb_currency body) currencies) \<and>
   (stripe e = Some client \<and> lookup_candidate d (req_candidateId b) = Some cand \<and>
    sessions_create client (checkout_session_params e cand b) = Inr s \<and>
    sqlite_throws e InsertTransaction = None \<and> lookup_session d (Some (sess_id s)) = None \<longrightarrow>
      fst (create_checkout_session e d b) = (200, CheckoutJson (sess_id s) (sess_url s)) \<and>
      (\<exists>row. transactions (snd (create_checkout_session e d b)) = transactions d @ [row] \<and>
             currency row = checkout_currency (req_currency b)))"
proof (intro conjI impI allI)
  assume "\<not> isValidCurrency (ui_currency st) currencies"
  then show "snd (createCheckout origin st) = None"
    by (simp add: createCheckout_def split: option.splits)
next
  assume "\<not> isValidCurrency (ui_currency st) currencies"
    and "choiceId st \<noteq> None \<and> choiceId st \<noteq> Some 0"
  then show "ui_message (fst (createCheckout origin st)) = ''Unsupported currency.''"
    by (auto simp: createCheckout_def split: option.splits)
next
  fix body
  assume "snd (createCheckout origin st) = Some body"
  then show "isValidCurrency (fb_currency body) currencies"
    by (auto simp: createCheckout_def split: option.splits if_splits)
next
  assume a: "stripe e = Some client \<and> lookup_candidate d (req_candidateId b) = Some cand \<and>
    sessions_create client (checkout_session_params e cand b) = Inr s \<and>
    sqlite_throws e InsertTransaction = None \<and> lookup_session d (Some (sess_id s)) = None"
  then have fin: "isFinite (req_candidateId b)"
    and "find (\<lambda>c. cand_id c = cand_id cand) (candidates d) \<noteq> None"
    using lookup_candidate_Some by blast+
  with a show "fst (create_checkout_session e d b) = (200, CheckoutJson (sess_id s) (sess_url s))"
    and "\<exists>row. transactions (snd (create_checkout_session e d b)) = transactions d @ [row] \<and>
             currency row = checkout_currency (req_currency b)"
    by (auto simp: create_checkout_session_def insert_transaction_def)
qed

text \<open>
  Witness for C4: the client refuses THB and sends a request for euros; the server, asked
  directly for THB, persists the row.
\<close>

theorem currency_checked_by_client_witness:
  "\<not> isValidCurrency (JStr ''THB'') currencies \<and>
   createCheckout ''http://localhost:5173'' (ui0\<lparr>ui_currency := JStr ''THB''\<rparr>) =
     (ui0\<lparr>ui_currency := JStr ''THB'', ui_message := ''Unsupported currency.''\<rparr>, None) \<and>
   isValidCurrency (JStr ''eur'') currencies \<and>
   map_option fb_currency (snd (createCheckout ''http://localhost:5173'' ui0)) = Some (JStr ''eur'') \<and>
   fst (create_checkout_session demo_env store2 (body3\<lparr>req_currency := JStr ''THB''\<rparr>)) =
     (200, CheckoutJson ''cs_test_2'' (JStr ''https://checkout.stripe.com/c/pay/cs_test_2'')) \<and>
   (\<exists>row. transactions (snd (create_checkout_session demo_env store2
                                (body3\<lparr>req_currency := JStr ''THB''\<rparr>))) =
            transactions store2 @ [row] \<and> currency row = ''THB'')"
proof -
  let ?st = "ui0\<lparr>ui_currency := JStr ''THB''\<rparr>"
  let ?o = "''http://localhost:5173''"
  let ?b = "body3\<lparr>req_currency := JStr ''THB''\<rparr>"
  let ?cand = "\<lparr>cand_id = 1, cand_name = ''Yes'', tally = 5\<rparr>"
  let ?s = "\<lparr>sess_id = ''cs_test_2'',
             sess_url = JStr ''https://checkout.stripe.com/c/pay/cs_test_2'',
             payment_status = ''unpaid''\<rparr>"
  have inv: "\<not> isValidCurrency (ui_currency ?st) currencies"
    by (simp add: isValidCurrency_def currencies_def js_defs ui0_def)
  have val: "isValidCurrency (JStr ''eur'') currencies"
    by (simp add: isValidCurrency_def currencies_def js_defs)
  have ch: "choiceId ?st \<noteq> None \<and> choiceId ?st \<noteq> Some 0"
    by (simp add: ui0_def)
  have sent: "snd (createCheckout ?o ui0) =
      Some \<lparr>fb_candidateId = 1, fb_votes = 3, fb_currency = JStr ''eur'',
            fb_successUrl = ?o @ ''/?status=success&session_id={CHECKOUT_SESSION_ID}'',
            fb_cancelUrl = ?o @ ''/?status=cancelled''\<rparr>"
    using val by (simp add: createCheckout_def normalizeVotes_def ui0_def)
  have srv: "stripe demo_env = Some demo_client \<and>
      lookup_candidate store2 (req_candidateId ?b) = Some ?cand \<and>
      sessions_create demo_client (checkout_session_params demo_env ?cand ?b) = Inr ?s \<and>
      sqlite_throws demo_env InsertTransaction = None \<and>
      lookup_session store2 (Some (sess_id ?s)) = None"
    by (simp add: lookup_candidate_def lookup_session_def demo_defs)
  have cur: "checkout_currency (req_currency ?b) = ''THB''"
    by (simp add: checkout_currency_def js_defs demo_defs)
  note w = currency_checked_by_client [of ?st ?o demo_env demo_client store2 ?b ?cand ?s]
  have 1: "snd (createCheckout ?o ?st) = None"
    and 2: "ui_message (fst (createCheckout ?o ?st)) = ''Unsupported currency.''"
    using w inv ch by blast+
  have 3: "fst (create_checkout_session demo_env store2 ?b) = (200, CheckoutJson (sess_id ?s) (sess_url ?s))"
    and 4: "\<exists>row. transactions (snd (create_checkout_session demo_env store2 ?b)) =
              transactions store2 @ [row] \<and> currency row = checkout_currency (req_currency ?b)"
    using w srv by blast+
  have 5: "createCheckout ?o ?st = (?st\<lparr>ui_message := ''Unsupported currency.''\<rparr>, None)"
    using inv by (simp add: createCheckout_def ui0_def)
  from inv val sent 3 4 5 cur show ?thesis
    by (simp add: ui0_def)
qed




section \<open>Writing the settings\<close>

lemma authorized_iff:
  "authorized e hdr \<longleftrightarrow> ADMIN_TOKEN e \<noteq> [] \<and> hdr = Some (''Bearer '' @ ADMIN_TOKEN e)"
  by (cases hdr) (auto simp: authorized_def)

lemma coalesce_simps: "coalesce None b = b" "coalesce (Some x) b = Some x"
  by (simp_all add: coalesce_def)

text \<open>
  Claim C8. A settings write without the credential, or with a wrong one, is answered 401
  and changes nothing. An authenticated write never touches the candidates or the
  transactions; a field (\<open>question\<close>, \<open>glow\<close>) that the request does not supply keeps its
  value; when the write succeeds a field supplied as a string has that string as its new
  value, when it does not succeed nothing has changed; and it succeeds when no supplied
  value is a boolean and the storage engine does not fail.
\<close>

theorem admin_settings_frame:
  assumes "admin_settings e d hdr b = (resp, d')"
  shows "(ADMIN_TOKEN e = [] \<or> hdr \<noteq> Some (''Bearer '' @ ADMIN_TOKEN e) \<longrightarrow>
            resp = (401, ErrorJson ''Unauthorized'') \<and> d' = d) \<and>
         (ADMIN_TOKEN e \<noteq> [] \<and> hdr = Some (''Bearer '' @ ADMIN_TOKEN e) \<longrightarrow>
            candidates d' = candidates d \<and> transactions d' = transactions d \<and>
            (ab_question b = JUndefined \<longrightarrow>
               map_option question (settings d') = map_option question (settings d)) \<and>
            (ab_glow b = JUndefined \<longrightarrow>
               map_option glow (settings d') = map_option glow (settings d)) \<and>
            (fst resp = 200 \<longrightarrow>
               (\<forall>s. ab_question b = JStr s \<longrightarrow>
                  map_option question (settings d') = map_option (\<lambda>r. Some s) (settings d)) \<and>
               (\<forall>s. ab_glow b = JStr s \<longrightarrow>
                  map_option glow (settings d') = map_option (\<lambda>r. Some s) (settings d))) \<and>
            (fst resp \<noteq> 200 \<longrightarrow> d' = d) \<and>
            ((\<forall>bl. ab_question b \<noteq> JBool bl \<and> ab_glow b \<noteq> JBool bl) \<and>
             sqlite_throws e UpdateSettings = None \<longrightarrow> resp = (200, OkJson)))"
proof (intro conjI impI)
  assume "ADMIN_TOKEN e = [] \<or> hdr \<noteq> Some (''Bearer '' @ ADMIN_TOKEN e)"
  then have "\<not> authorized e hdr" by (simp add: authorized_iff)
  with assms show "resp = (401, ErrorJson ''Unauthorized'')" and "d' = d"
    by (simp_all add: admin_settings_def)
next
  assume "ADMIN_TOKEN e \<noteq> [] \<and> hdr = Some (''Bearer '' @ ADMIN_TOKEN e)"
  then have au: "authorized e hdr" by (simp add: authorized_iff)
  from assms show "candidates d' = candidates d" and "transactions d' = transactions d"
    using admin_settings_tables by blast+
  from assms au have cases:
    "(\<exists>err. update_settings e (ab_question b) (ab_glow b) d = Inl err \<and> fst resp = 500 \<and> d' = d) \<or>
     (update_settings e (ab_question b) (ab_glow b) d = Inr d' \<and> resp = (200, OkJson))"
    by (auto simp: admin_settings_def split: sum.splits)
  {
    assume "ab_question b = JUndefined"
    with cases show "map_option question (settings d') = map_option question (settings d)"
      by (auto simp: update_settings_def coalesce_simps split: sum.splits option.splits)
  }
  {
    assume "ab_glow b = JUndefined"
    with cases show "map_option glow (settings d') = map_option glow (settings d)"
      by (auto simp: update_settings_def coalesce_simps split: sum.splits option.splits)
  }
  {
    assume "fst resp = 200"
    with cases have u: "update_settings e (ab_question b) (ab_glow b) d = Inr d'" by auto
    show "\<forall>s. ab_question b = JStr s \<longrightarrow>
            map_option question (settings d') = map_option (\<lambda>r. Some s) (settings d)"
      using u by (auto simp: update_settings_def coalesce_simps split: sum.splits option.splits)
    show "\<forall>s. ab_glow b = JStr s \<longrightarrow>
            map_option glow (settings d') = map_option (\<lambda>r. Some s) (settings d)"
      using u by (auto simp: update_settings_def coalesce_simps split: sum.splits option.splits)
  }
  {
    assume "fst resp \<noteq> 200"
    with cases show "d' = d" by auto
  }
  {
    assume ok: "(\<forall>bl. ab_question b \<noteq> JBool bl \<and> ab_glow b \<noteq> JBool bl) \<and>
             sqlite_throws e UpdateSettings = None"
    have "\<exists>q. bind_text (ab_question b) = Inr q"
      using ok by (cases "ab_question b") auto
    moreover have "\<exists>g. bind_text (ab_glow b) = Inr g"
      using ok by (cases "ab_glow b") auto
    ultimately have "\<exists>d''. update_settings e (ab_question b) (ab_glow b) d = Inr d''"
      using ok by (auto simp: update_settings_def split: option.splits)
    with cases show "resp = (200, OkJson)" by auto
  }
qed

text \<open>
  Witness for C8: an authenticated write of the question alone (the glow keeps its value),
  the same write with a wrong credential, and with none.
\<close>

theorem admin_settings_frame_witness:
  "admin_settings demo_env store2 (Some ''Bearer s3cret'') admin_body0 =
     ((200, OkJson),
      store2\<lparr>settings := Some \<lparr>question = Some ''Is it NO this week?'', glow = Some ''#00ffff''\<rparr>\<rparr>) \<and>
   map_option glow (settings store2) = Some (Some ''#00ffff'') \<and>
   admin_settings demo_env store2 (Some ''Bearer guess'') admin_body0 =
     ((401, ErrorJson ''Unauthorized''), store2) \<and>
   admin_settings demo_env store2 None admin_body0 = ((401, ErrorJson ''Unauthorized''), store2)"
proof -
  let ?d = "store2\<lparr>settings := Some \<lparr>question = Some ''Is it NO this week?'', glow = Some ''#00ffff''\<rparr>\<rparr>"
  have ok: "admin_settings demo_env store2 (Some ''Bearer s3cret'') admin_body0 = ((200, OkJson), ?d)"
    by (simp add: admin_settings_def authorized_def update_settings_def coalesce_def demo_defs)
  obtain r1 d1 where 1: "admin_settings demo_env store2 (Some ''Bearer guess'') admin_body0 = (r1, d1)"
    by (cases "admin_settings demo_env store2 (Some ''Bearer guess'') admin_body0")
  obtain r2 d2 where 2: "admin_settings demo_env store2 None admin_body0 = (r2, d2)"
    by (cases "admin_settings demo_env store2 None admin_body0")
  have t: "ADMIN_TOKEN demo_env = ''s3cret''" by (simp add: demo_defs)
  have g: "ab_glow admin_body0 = JUndefined" "ab_question admin_body0 = JStr ''Is it NO this week?''"
    by (simp_all add: demo_defs)
  have "map_option glow (settings ?d) = map_option glow (settings store2)"
    using admin_settings_frame [OF ok] t g by simp
  moreover have "map_option question (settings ?d) = map_option (\<lambda>r. Some ''Is it NO this week?'') (settings store2)"
    using admin_settings_frame [OF ok] t g by simp
  moreover have "r1 = (401, ErrorJson ''Unauthorized'') \<and> d1 = store2"
    using admin_settings_frame [OF 1] t by simp
  moreover have "r2 = (401, ErrorJson ''Unauthorized'') \<and> d2 = store2"
    using admin_settings_frame [OF 2] t by simp
  ultimately show ?thesis using ok 1 2
    by (simp add: demo_defs)
qed

section \<open>The tallies over the life of the server\<close>

lemma tallies_grow_same: "candidates d' = candidates d \<Longrightarrow> tallies_grow d d'"
  by (auto simp: tallies_grow_def list_all_iff list_ex_iff)

lemma tallies_grow_counted:
  assumes "1 \<le> votes trx"
  shows "tallies_grow d (counted_store sid trx d)"
proof -
  let ?inc = "\<lambda>c. if cand_id c = candidate_id trx then c\<lparr>tally := tally c + votes trx\<rparr> else c"
  have "\<exists>c'\<in>set (map ?inc (candidates d)).
          cand_id c' = cand_id c \<and> cand_name c' = cand_name c \<and> tally c \<le> tally c'"
    if "c \<in> set (candidates d)" for c
  proof
    show "?inc c \<in> set (map ?inc (candidates d))" using that by simp
    show "cand_id (?inc c) = cand_id c \<and> cand_name (?inc c) = cand_name c \<and> tally c \<le> tally (?inc c)"
      using assms by simp
  qed
  then show ?thesis
    by (simp add: tallies_grow_def counted_store_def list_all_iff list_ex_iff)
qed

lemma handle_candidates:
  assumes "handle e d r = (resp, d')"
  shows "candidates d' = candidates d \<or>
         (is_confirmer r \<and>
          (\<exists>sid trx. lookup_session d (Some sid) = Some trx \<and> paid trx = 0 \<and>
                     d' = counted_store sid trx d))"
proof (cases r)
  case GetSettings
  with assms show ?thesis by (simp add: get_settings_def Let_def)
next
  case GetTally
  with assms show ?thesis by (auto simp: get_tally_def)
next
  case (PostAdminSettings hdr b)
  with assms show ?thesis by (auto dest!: admin_settings_tables)
next
  case (PostCreateCheckoutSession b)
  with assms have "create_checkout_session e d b = (resp, d')" by simp
  from checkout_cases [OF this] show ?thesis by auto
next
  case (GetVerifySession q)
  with assms have "verify_session e d q = (resp, d')" by simp
  from verify_session_cases [OF this] GetVerifySession show ?thesis by auto
next
  case (PostStripeWebhook raw sig)
  with assms have "stripe_webhook e d raw sig = (resp, d')" by simp
  from stripe_webhook_cases [OF this] PostStripeWebhook show ?thesis by auto
qed

text \<open>
  Claim C9. In every store the server can reach, no tally is negative. No request and no
  restart decreases a tally or removes a candidate; a request that is not a confirmation
  leaves the candidates as they are; a request that changes them is a confirmation that
  counts one unpaid transaction, adding its vote count (at least 1) to its candidate's
  tally; and the candidates that start-up seeds into an empty table have tally 0.
\<close>

theorem tallies_never_decrease:
  assumes "reachable d"
  shows "list_all (\<lambda>c. 0 \<le> tally c) (candidates d) \<and>
         tallies_grow d (snd (handle e d r)) \<and>
         (\<not> is_confirmer r \<longrightarrow> candidates (snd (handle e d r)) = candidates d) \<and>
         (candidates (snd (handle e d r)) \<noteq> candidates d \<longrightarrow>
            (\<exists>sid trx. lookup_session d (Some sid) = Some trx \<and> paid trx = 0 \<and> 1 \<le> votes trx \<and>
                       snd (handle e d r) = counted_store sid trx d)) \<and>
         (\<forall>d'. startup cs d = Inr d' \<longrightarrow> tallies_grow d d') \<and>
         (\<forall>d'. startup cs d0 = Inr d' \<longrightarrow> candidates d0 = [] \<longrightarrow>
            list_all (\<lambda>c. tally c = 0) (candidates d'))"
proof -
  have ok: "store_ok d" using assms by (rule reachable_ok)
  then have nonneg: "list_all (\<lambda>c. 0 \<le> tally c) (candidates d)"
    by (simp add: store_ok_def)
  obtain resp d1 where h: "handle e d r = (resp, d1)"
    by (cases "handle e d r")
  note hc = handle_candidates [OF h]
  have change: "\<exists>sid trx. lookup_session d (Some sid) = Some trx \<and> paid trx = 0 \<and> 1 \<le> votes trx \<and>
      d1 = counted_store sid trx d" if "candidates d1 \<noteq> candidates d"
    using hc that store_ok_candidate(2) [OF ok] by blast
  have grow: "tallies_grow d d1"
  proof (cases "candidates d1 = candidates d")
    case True
    then show ?thesis by (rule tallies_grow_same)
  next
    case False
    from change [OF False] show ?thesis using tallies_grow_counted by blast
  qed
  have same: "candidates d1 = candidates d" if "\<not> is_confirmer r"
    using hc that by blast
  have start: "tallies_grow d d'" if s: "startup cs d = Inr d'" for d'
  proof (cases "candidates d = []")
    case True
    then show ?thesis by (simp add: tallies_grow_def)
  next
    case False
    with startup_candidates [OF s] show ?thesis by (simp add: tallies_grow_same)
  qed
  have seed: "list_all (\<lambda>c. tally c = 0) (candidates d')"
    if "startup cs d0 = Inr d'" and "candidates d0 = []" for d'
    using that
    by (auto simp: startup_def Let_def split: option.splits sum.splits if_splits
        dest: insert_candidates_zero)
  from nonneg grow same change start seed h show ?thesis by simp
qed

text \<open>
  Witness for C9: in the running example the confirmation of the second checkout raises
  the tally of candidate 1 from 5 to 8, the checkout itself leaves the candidates alone,
  and the seed starts both candidates at 0.
\<close>

theorem tallies_never_decrease_witness:
  "reachable store3 \<and>
   list_all (\<lambda>c. 0 \<le> tally c) (candidates store3) \<and>
   handle demo_env store3 (GetVerifySession (Some ''cs_test_2'')) = ((200, Counted), store4) \<and>
   tallies_grow store3 store4 \<and>
   tally_of store3 1 = Some 5 \<and> tally_of store4 1 = Some 8 \<and>
   candidates (snd (handle demo_env store3 (PostCreateCheckoutSession body3))) = candidates store3 \<and>
   startup None empty_db = Inr store0 \<and> list_all (\<lambda>c. tally c = 0) (candidates store0)"
proof -
  have h: "handle demo_env store3 (GetVerifySession (Some ''cs_test_2'')) = ((200, Counted), store4)"
    by (simp add: run4)
  have e: "candidates empty_db = []" by (simp add: empty_db_def)
  have t: "tally_of store3 1 = Some 5" "tally_of store4 1 = Some 8"
    by (simp_all add: tally_of_def demo_defs)
  have "list_all (\<lambda>c. 0 \<le> tally c) (candidates store3)"
    and "tallies_grow store3 store4"
    and "candidates (snd (handle demo_env store3 (PostCreateCheckoutSession body3))) = candidates store3"
    using tallies_never_decrease [OF reachable_store3, of demo_env "GetVerifySession (Some ''cs_test_2'')"]
      tallies_never_decrease [OF reachable_store3, of demo_env "PostCreateCheckoutSession body3"] h
    by simp_all
  moreover have "list_all (\<lambda>c. tally c = 0) (candidates store0)"
    using tallies_never_decrease [OF reachable_store3, of demo_env GetTally None empty_db] run0 e
    by simp
  ultimately show ?thesis
    using reachable_store3 h t run0 by simp
qed

end
